theory Spec2Isabelle
  imports Main
begin

section \<open>Hotel booking backend: data model\<close>

text \<open>
  Timestamps. A Python \<open>datetime\<close> is a point on one UTC time line, kept here as the
  number of microseconds since 0001-01-01T00:00:00; a \<open>date\<close> is its proleptic
  Gregorian ordinal (0001-01-01 has ordinal 1), the number \<open>date.toordinal\<close> returns.
  All timestamps of one run are of the same kind (all naive or all aware), so that they
  compare as numbers.
\<close>

type_synonym datetime = int
type_synonym date = int

definition MAXORDINAL :: int where
  "MAXORDINAL = 3652059"

definition mk_datetime :: "date \<Rightarrow> int \<Rightarrow> int \<Rightarrow> int \<Rightarrow> datetime" where
  \<comment> \<open>\<open>datetime(day.year, day.month, day.day, hour, minute, second)\<close>\<close>
  "mk_datetime day hour minute second =
     (((day - 1) * 86400) + hour * 3600 + minute * 60 + second) * 1000000"

definition date_of :: "datetime \<Rightarrow> date" where
  \<comment> \<open>\<open>dt.date()\<close>, as an ordinal\<close>
  "date_of dt = dt div 86400000000 + 1"

datatype error = HTTPException nat string | ValueError string

definition fromordinal :: "int \<Rightarrow> error + date" where
  \<comment> \<open>\<open>date.fromordinal\<close> raises outside 1..MAXORDINAL\<close>
  "fromordinal n =
     (if 1 \<le> n \<and> n \<le> MAXORDINAL then Inr n else Inl (ValueError ''ordinal out of range''))"

text \<open>The errors of the endpoints, under the names of the specification.\<close>

definition InvalidDateRange :: error where
  "InvalidDateRange = HTTPException 400 ''Check-out must be after check-in''"

definition UnknownRoomType :: error where
  "UnknownRoomType = HTTPException 404 ''Room type not found''"

definition CapacityExceeded :: error where
  "CapacityExceeded = HTTPException 400 ''Exceeds room capacity''"

definition DateConflict :: error where
  "DateConflict = HTTPException 409 ''Selected dates not available''"

definition InvalidIdentifier :: error where
  "InvalidIdentifier = HTTPException 400 ''Invalid booking id''"

definition BookingNotFound :: error where
  "BookingNotFound = HTTPException 404 ''Booking not found''"

definition MalformedDateInput :: error where
  "MalformedDateInput = HTTPException 400 ''Invalid date format. Use ISO format.''"

subsection \<open>Requests, documents and the room catalogue\<close>

record BookingRequest =
  customer_name :: string
  customer_email :: string
  room_type :: string
  guests :: int
  check_in :: datetime
  check_out :: datetime
  payment_method :: "string option"

text \<open>
  A document of the \<open>booking\<close> collection: the fields \<open>book\<close> writes, the
  \<open>created_at\<close> stamp and the \<open>_id\<close> the store adds.
\<close>

record Booking = BookingRequest +
  status :: string
  created_at :: datetime
  oid :: string

record Notification =
  title :: string
  message :: string
  level :: string

record BookingResponse =
  booking_id :: string
  resp_status :: string

record Room =
  rtype :: string
  price :: int
  beds :: int
  capacity :: int
  amenities :: "string list"
  images :: "string list"

definition wifi :: string where
  \<comment> \<open>the amenity label is spelt with U+2011, three bytes in UTF-8\<close>
  "wifi = ''Wi'' @ [CHR 0xE2, CHR 0x80, CHR 0x91] @ ''Fi''"

definition ROOM_TYPES :: "Room list" where
  "ROOM_TYPES =
    [\<lparr>rtype = ''Deluxe'', price = 180, beds = 1, capacity = 2,
      amenities = [''King Bed'', ''City View'', ''Breakfast'', wifi],
      images = [''https://images.unsplash.com/photo-1542314831-068cd1dbfeeb?q=80&w=1600&auto=format&fit=crop'']\<rparr>,
     \<lparr>rtype = ''Executive'', price = 260, beds = 2, capacity = 3,
      amenities = [''King Bed'', ''Lounge Access'', ''Workspace'', wifi],
      images = [''https://images.unsplash.com/photo-1528909514045-2fa4ac7a08ba?q=80&w=1600&auto=format&fit=crop'']\<rparr>,
     \<lparr>rtype = ''Royal Suite'', price = 480, beds = 2, capacity = 4,
      amenities = [''2 Bedrooms'', ''Panoramic View'', ''Butler Service'', ''Jacuzzi''],
      images = [''https://images.unsplash.com/photo-1505691723518-36a5ac3b2d52?q=80&w=1600&auto=format&fit=crop'']\<rparr>]"

text \<open>
  \<open>str.lower\<close>. A string is its UTF-8 bytes; the ASCII capitals are lowered and every
  other byte is kept. No code point outside ASCII lowers to a letter of a catalogue
  name, so the match against \<open>ROOM_TYPES\<close> is the one Python computes.
\<close>

definition lower_char :: "char \<Rightarrow> char" where
  "lower_char c =
     (let n = (of_char c :: nat) in if 65 \<le> n \<and> n \<le> 90 then char_of (n + 32) else c)"

definition lower :: "string \<Rightarrow> string" where
  "lower s = map lower_char s"

definition find_room :: "string \<Rightarrow> Room option" where
  \<comment> \<open>\<open>next((r for r in ROOM_TYPES if r["type"].lower() == room_type.lower()), None)\<close>\<close>
  "find_room name = find (\<lambda>r. lower (rtype r) = lower name) ROOM_TYPES"

section \<open>The document store\<close>

text \<open>
  The store holds the two collections in insertion order. Every call of the driver is
  recorded in \<open>oplog\<close>, so that a path through an endpoint that does not touch the
  store is told apart from one that only reads it.
\<close>

datatype db_op = CountDocuments string | InsertOne string | UpdateOne string | Find string

record database =
  booking :: "Booking list"
  notification :: "Notification list"
  oplog :: "db_op list"

definition count_documents :: "(Booking \<Rightarrow> bool) \<Rightarrow> database \<Rightarrow> nat \<times> database" where
  \<comment> \<open>\<open>db["booking"].count_documents(filter)\<close>, the filter as a predicate\<close>
  "count_documents flt db =
     (length (filter flt (booking db)), db\<lparr>oplog := oplog db @ [CountDocuments ''booking'']\<rparr>)"

fun set_first :: "('a \<Rightarrow> bool) \<Rightarrow> ('a \<Rightarrow> 'a) \<Rightarrow> 'a list \<Rightarrow> 'a list \<times> nat" where
  "set_first p f [] = ([], 0)"
| "set_first p f (x # xs) =
     (if p x then (f x # xs, 1) else (let (ys, n) = set_first p f xs in (x # ys, n)))"

definition update_one :: "(Booking \<Rightarrow> bool) \<Rightarrow> (Booking \<Rightarrow> Booking) \<Rightarrow> database \<Rightarrow> nat \<times> database" where
  \<comment> \<open>\<open>db["booking"].update_one(filter, {"$set": ...})\<close>: the first match is updated,
      the matched count is returned\<close>
  "update_one flt upd db =
     (let (bs, matched_count) = set_first flt upd (booking db)
      in (matched_count, db\<lparr>booking := bs, oplog := oplog db @ [UpdateOne ''booking'']\<rparr>))"

definition create_document ::
  "datetime \<Rightarrow> string \<Rightarrow> (datetime \<Rightarrow> string \<Rightarrow> Booking) \<Rightarrow> database \<Rightarrow> string \<times> database" where
  \<comment> \<open>Modelled from the spec: \<open>create_document\<close> of the module \<open>database\<close>, which is not
      among the sources. The specification gives \<open>insert(record) -> identifier\<close>, one
      insert into the store, the creation timestamp set to now and the identifier
      assigned by the store; \<open>now\<close> and \<open>new_id\<close> are what the clock and the store's
      identifier generator give at the call.\<close>
  "create_document now new_id data db =
     (new_id, db\<lparr>booking := booking db @ [data now new_id],
                oplog := oplog db @ [InsertOne ''booking'']\<rparr>)"

definition is_hex :: "char \<Rightarrow> bool" where
  "is_hex c =
     (let n = (of_char c :: nat)
      in (48 \<le> n \<and> n \<le> 57) \<or> (65 \<le> n \<and> n \<le> 70) \<or> (97 \<le> n \<and> n \<le> 102))"

definition ObjectId :: "string \<Rightarrow> string option" where
  \<comment> \<open>\<open>bson.ObjectId(s)\<close> of a string: 24 hexadecimal digits, or \<open>InvalidId\<close>. Two
      spellings of the same twelve bytes are the same identifier.\<close>
  "ObjectId s = (if length s = 24 \<and> list_all is_hex s then Some (lower s) else None)"

section \<open>The endpoints\<close>

definition is_available :: "string \<Rightarrow> datetime \<Rightarrow> datetime \<Rightarrow> database \<Rightarrow> bool \<times> database" where
  "is_available rt ci co db =
     (let (conflicts, db') =
        count_documents (\<lambda>d. room_type d = rt \<and> check_in d < co \<and> check_out d > ci) db
      in (conflicts = 0, db'))"

record AvailabilityResult =
  available :: bool
  reason :: "string option"

definition availability ::
  "(string \<Rightarrow> datetime option) \<Rightarrow> string \<Rightarrow> string \<Rightarrow> string \<Rightarrow> int \<Rightarrow> database
     \<Rightarrow> (error + AvailabilityResult) \<times> database" where
  \<comment> \<open>\<open>fromisoformat\<close> is \<open>datetime.fromisoformat\<close>, \<open>None\<close> where it raises\<close>
  "availability fromisoformat room_type' check_in' check_out' guests' db =
     (case (fromisoformat check_in', fromisoformat check_out') of
        (Some ci, Some co) \<Rightarrow>
          if ci \<ge> co then (Inl InvalidDateRange, db)
          else (case find_room room_type' of
                  None \<Rightarrow> (Inl UnknownRoomType, db)
                | Some room \<Rightarrow>
                    if guests' > capacity room
                    then (Inr \<lparr>available = False, reason = Some ''Exceeds capacity''\<rparr>, db)
                    else (let (a, db') = is_available (rtype room) ci co db
                          in (Inr \<lparr>available = a, reason = None\<rparr>, db')))
      | _ \<Rightarrow> (Inl MalformedDateInput, db))"

definition or_pending :: "string option \<Rightarrow> string" where
  \<comment> \<open>\<open>body.payment_method or "Pending"\<close>: \<open>None\<close> and the empty string are falsy\<close>
  "or_pending pm = (case pm of None \<Rightarrow> ''Pending'' | Some s \<Rightarrow> if s = [] then ''Pending'' else s)"

definition book ::
  "datetime \<Rightarrow> string \<Rightarrow> BookingRequest \<Rightarrow> database \<Rightarrow> (error + BookingResponse) \<times> database" where
  "book now new_id body db =
     (if check_in body \<ge> check_out body then (Inl InvalidDateRange, db)
      else (case find_room (room_type body) of
              None \<Rightarrow> (Inl UnknownRoomType, db)
            | Some room \<Rightarrow>
                if guests body > capacity room then (Inl CapacityExceeded, db)
                else (let (a, db1) = is_available (rtype room) (check_in body) (check_out body) db
                      in if \<not> a then (Inl DateConflict, db1)
                         else (let data = (\<lambda>stamp ident.
                                     \<lparr>customer_name = customer_name body,
                                      customer_email = customer_email body,
                                      room_type = rtype room,
                                      guests = guests body,
                                      check_in = check_in body,
                                      check_out = check_out body,
                                      payment_method = Some (or_pending (payment_method body)),
                                      status = ''Booked'',
                                      created_at = stamp,
                                      oid = ident\<rparr>);
                                   (bid, db2) = create_document now new_id data db1
                               in (Inr \<lparr>booking_id = bid, resp_status = ''Booked''\<rparr>, db2)))))"

record PayResult =
  pay_status :: string
  pay_booking_id :: string
  pay_method :: string

definition pay :: "string \<Rightarrow> string \<Rightarrow> database \<Rightarrow> (error + PayResult) \<times> database" where
  "pay method' booking_id' db =
     (case ObjectId booking_id' of
        None \<Rightarrow> (Inl InvalidIdentifier, db)
      | Some ident \<Rightarrow>
          (let (matched_count, db') =
             update_one (\<lambda>d. oid d = ident)
               (\<lambda>d. d\<lparr>payment_method := Some method', status := ''Paid''\<rparr>) db
           in if matched_count = 0 then (Inl BookingNotFound, db')
              else (Inr \<lparr>pay_status = ''Paid'', pay_booking_id = booking_id',
                         pay_method = method'\<rparr>, db')))"

subsection \<open>The dashboard\<close>

record ChartEntry =
  date :: date
  bookings :: nat

record Summary =
  total_bookings :: nat
  booked :: nat
  cleaning :: nat

record Dashboard =
  summary :: Summary
  chart :: "ChartEntry list"
  notifications :: "Notification list"

definition day_window :: "date \<Rightarrow> Booking \<Rightarrow> bool" where
  \<comment> \<open>\<open>{"created_at": {"$gte": start, "$lte": end}}\<close> with \<open>start\<close> the midnight of
      the day and \<open>end\<close> its 23:59:59\<close>
  "day_window day d =
     (let start = mk_datetime day 0 0 0; end = mk_datetime day 23 59 59
      in created_at d \<ge> start \<and> created_at d \<le> end)"

fun chart_loop ::
  "date \<Rightarrow> nat list \<Rightarrow> ChartEntry list \<Rightarrow> database \<Rightarrow> (error + ChartEntry list) \<times> database" where
  "chart_loop today [] acc db = (Inr acc, db)"
| "chart_loop today (i # rest) acc db =
     (case fromordinal (today - (6 - int i)) of
        Inl e \<Rightarrow> (Inl e, db)
      | Inr day \<Rightarrow>
          (let (count, db') = count_documents (day_window day) db
           in chart_loop today rest (acc @ [\<lparr>date = day, bookings = count\<rparr>]) db'))"

definition find_notifications :: "nat \<Rightarrow> database \<Rightarrow> Notification list \<times> database" where
  \<comment> \<open>\<open>list(db["notification"].find({}, {"_id": 0}).limit(n))\<close>\<close>
  "find_notifications n db =
     (take n (notification db), db\<lparr>oplog := oplog db @ [Find ''notification'']\<rparr>)"

definition dashboard :: "datetime \<Rightarrow> database \<Rightarrow> (error + Dashboard) \<times> database" where
  \<comment> \<open>\<open>utcnow\<close> is what \<open>datetime.utcnow()\<close> returns at the call\<close>
  "dashboard utcnow db =
     (let (total, db1) = count_documents (\<lambda>d. True) db;
          (n_cleaning, db2) = count_documents (\<lambda>d. status d = ''Cleaning'') db1;
          (n_booked, db3) = count_documents (\<lambda>d. status d = ''Booked'') db2;
          today = date_of utcnow
      in case chart_loop today [0..<7] [] db3 of
           (Inl e, db4) \<Rightarrow> (Inl e, db4)
         | (Inr entries, db4) \<Rightarrow>
             (let (ns, db5) = find_notifications 10 db4
              in (Inr \<lparr>summary = \<lparr>total_bookings = total, booked = n_booked,
                                     cleaning = n_cleaning\<rparr>,
                        chart = entries, notifications = ns\<rparr>, db5)))"

section \<open>Sample data\<close>

text \<open>
  The scenario of the specification: guest A books a Deluxe room for two from
  2024-06-01 to 2024-06-05 into an empty store (2024-06-01 has ordinal 739038).
\<close>

definition june_2024 :: "int \<Rightarrow> datetime" where
  "june_2024 d = mk_datetime (739037 + d) 0 0 0"

definition empty_db :: database where
  "empty_db = \<lparr>booking = [], notification = [], oplog = []\<rparr>"

definition request_A :: BookingRequest where
  "request_A = \<lparr>customer_name = ''A'', customer_email = ''a@example.com'',
     room_type = ''Deluxe'', guests = 2, check_in = june_2024 1, check_out = june_2024 5,
     payment_method = None\<rparr>"

definition id_A :: string where
  "id_A = ''665a00000000000000000001''"

definition id_B :: string where
  "id_B = ''665a00000000000000000002''"

definition db_A :: database where
  "db_A = snd (book (june_2024 0) id_A request_A empty_db)"

definition cancelled_A :: Booking where
  "cancelled_A = \<lparr>customer_name = ''A'', customer_email = ''a@example.com'',
     room_type = ''Deluxe'', guests = 2, check_in = june_2024 1, check_out = june_2024 5,
     payment_method = Some ''Pending'', status = ''Cancelled'', created_at = june_2024 0,
     oid = id_A\<rparr>"

definition request_blank :: BookingRequest where
  "request_blank = request_A\<lparr>payment_method := Some []\<rparr>"

definition request_card :: BookingRequest where
  "request_card = request_A\<lparr>check_in := june_2024 5, check_out := june_2024 7,
       payment_method := Some ''Card''\<rparr>"

definition request_no_guests :: BookingRequest where
  "request_no_guests = request_A\<lparr>guests := 0\<rparr>"

definition iso_sample :: "string \<Rightarrow> datetime option" where
  "iso_sample s =
     (if s = ''2024-06-01'' then Some (june_2024 1)
      else if s = ''2024-06-05'' then Some (june_2024 5)
      else None)"

definition request_lower :: BookingRequest where
  "request_lower = \<lparr>customer_name = ''B'', customer_email = ''b@example.com'',
     room_type = ''deluxe'', guests = 1, check_in = june_2024 3, check_out = june_2024 7,
     payment_method = None\<rparr>"

section \<open>Availability\<close>

lemma is_available_fst:
  "fst (is_available R ci co db) \<longleftrightarrow>
     \<not> (\<exists>b \<in> set (booking db). room_type b = R \<and> check_in b < co \<and> check_out b > ci)"
  by (auto simp: is_available_def count_documents_def filter_empty_conv)

lemma is_available_snd:
  "snd (is_available R ci co db) = db\<lparr>oplog := oplog db @ [CountDocuments ''booking'']\<rparr>"
  by (simp add: is_available_def count_documents_def)

lemma db_A_booking:
  "booking db_A = [\<lparr>customer_name = ''A'', customer_email = ''a@example.com'',
     room_type = ''Deluxe'', guests = 2, check_in = june_2024 1, check_out = june_2024 5,
     payment_method = Some ''Pending'', status = ''Booked'', created_at = june_2024 0,
     oid = id_A\<rparr>]"
  by code_simp

text \<open>
  Claim C1. For a requested interval with \<open>ci < co\<close>, \<open>is_available\<close> answers true
  exactly when no stored booking of that room type has \<open>check_in < co\<close> and
  \<open>check_out > ci\<close>. In particular, when the store holds one booking of the room type
  and the request starts at its check-out, the request is available.
\<close>

theorem is_available_iff_no_overlap:
  assumes "ci < co"
  shows "(fst (is_available R ci co db) \<longleftrightarrow>
           \<not> (\<exists>b \<in> set (booking db). room_type b = R \<and> check_in b < co \<and> check_out b > ci))
         \<and> (\<forall>b. room_type b = R \<and> check_in b < check_out b \<and> check_out b = ci \<and>
                 booking db = [b] \<longrightarrow> fst (is_available R ci co db))"
  using assms by (auto simp: is_available_fst)

theorem is_available_iff_no_overlap_witness:
  "june_2024 5 < june_2024 7 \<and> fst (is_available ''Deluxe'' (june_2024 5) (june_2024 7) db_A)
   \<and> \<not> fst (is_available ''Deluxe'' (june_2024 3) (june_2024 7) db_A)"
  using is_available_iff_no_overlap [of "june_2024 5" "june_2024 7" "''Deluxe''" db_A]
    is_available_iff_no_overlap [of "june_2024 3" "june_2024 7" "''Deluxe''" db_A]
  by (simp add: db_A_booking june_2024_def mk_datetime_def)

lemma find_room_Deluxe: "find_room ''Deluxe'' = Some (hd ROOM_TYPES)"
  by code_simp

lemma hd_ROOM_TYPES: "rtype (hd ROOM_TYPES) = ''Deluxe''" "capacity (hd ROOM_TYPES) = 2"
  by (simp_all add: ROOM_TYPES_def)

lemma june_2024_less: "june_2024 a < june_2024 b \<longleftrightarrow> a < b"
  by (simp add: june_2024_def mk_datetime_def)

lemma june_2024_le: "june_2024 a \<le> june_2024 b \<longleftrightarrow> a \<le> b"
  by (simp add: june_2024_def mk_datetime_def)

text \<open>
  Claim C2. The conflict query has no status filter: a stored booking of the room type
  that overlaps the request makes \<open>is_available\<close> answer false whatever its status
  is, and rewriting the statuses of all stored bookings never changes the answer.
\<close>

theorem is_available_ignores_status:
  assumes "room_type b = R" and "check_in b < co" and "check_out b > ci"
  shows "\<not> fst (is_available R ci co (db\<lparr>booking := pre @ [b\<lparr>status := s\<rparr>] @ post\<rparr>))
         \<and> fst (is_available R ci co (db\<lparr>booking := map (\<lambda>d. d\<lparr>status := f d\<rparr>) (booking db)\<rparr>))
             = fst (is_available R ci co db)"
  using assms by (auto simp: is_available_fst)

theorem is_available_ignores_status_witness:
  "\<not> fst (is_available ''Deluxe'' (june_2024 3) (june_2024 7) (empty_db\<lparr>booking := [cancelled_A]\<rparr>))
   \<and> status cancelled_A = ''Cancelled''"
  using is_available_ignores_status [where b = cancelled_A and R = "''Deluxe''"
      and co = "june_2024 7" and ci = "june_2024 3" and db = empty_db and pre = "[]"
      and s = "''Cancelled''" and post = "[]"]
  by (simp add: cancelled_A_def june_2024_def mk_datetime_def)

section \<open>Creating a booking\<close>

lemma book_fst:
  "fst (book now nid body db) =
     (if check_in body \<ge> check_out body then Inl InvalidDateRange
      else case find_room (room_type body) of
             None \<Rightarrow> Inl UnknownRoomType
           | Some room \<Rightarrow>
               if guests body > capacity room then Inl CapacityExceeded
               else if \<not> fst (is_available (rtype room) (check_in body) (check_out body) db)
                    then Inl DateConflict
                    else Inr \<lparr>booking_id = nid, resp_status = ''Booked''\<rparr>)"
  by (simp add: book_def create_document_def split: option.splits prod.splits)

lemma book_success:
  assumes "check_in body < check_out body"
    and "find_room (room_type body) = Some room"
    and "guests body \<le> capacity room"
    and "fst (is_available (rtype room) (check_in body) (check_out body) db)"
  shows "book now nid body db =
    (Inr \<lparr>booking_id = nid, resp_status = ''Booked''\<rparr>,
     db\<lparr>booking := booking db @
          [\<lparr>customer_name = customer_name body, customer_email = customer_email body,
            room_type = rtype room, guests = guests body, check_in = check_in body,
            check_out = check_out body,
            payment_method = Some (or_pending (payment_method body)),
            status = ''Booked'', created_at = now, oid = nid\<rparr>],
         oplog := oplog db @ [CountDocuments ''booking'', InsertOne ''booking'']\<rparr>)"
  using assms
  by (simp add: book_def create_document_def is_available_def count_documents_def
      split: prod.splits)

text \<open>
  Claim C3. \<open>book\<close> validates in a fixed order and the first failure wins: the date
  order, then the room type (matched without regard to case), then the capacity, then
  the availability. A request with \<open>check_in \<ge> check_out\<close> fails with
  InvalidDateRange and leaves the store, its log of calls included, as it was; a
  request that passes the first two checks with more guests than the room holds fails
  with CapacityExceeded whatever the store contains.
\<close>

theorem book_validation_order:
  "fst (book now nid body db) =
     (if check_in body \<ge> check_out body then Inl InvalidDateRange
      else case find_room (room_type body) of
             None \<Rightarrow> Inl UnknownRoomType
           | Some room \<Rightarrow>
               if guests body > capacity room then Inl CapacityExceeded
               else if \<not> fst (is_available (rtype room) (check_in body) (check_out body) db)
                    then Inl DateConflict
                    else Inr \<lparr>booking_id = nid, resp_status = ''Booked''\<rparr>)
   \<and> (check_in body \<ge> check_out body \<longrightarrow> book now nid body db = (Inl InvalidDateRange, db))
   \<and> (\<forall>room. check_in body < check_out body \<and> find_room (room_type body) = Some room \<and>
          guests body > capacity room \<longrightarrow> fst (book now nid body db) = Inl CapacityExceeded)"
  by (simp add: book_fst) (simp add: book_def)

theorem book_validation_order_witness:
  "book (june_2024 0) id_B (request_A\<lparr>check_in := june_2024 5, check_out := june_2024 1\<rparr>) db_A
     = (Inl InvalidDateRange, db_A)
   \<and> fst (book (june_2024 0) id_B (request_A\<lparr>guests := 3\<rparr>) db_A) = Inl CapacityExceeded
   \<and> fst (book (june_2024 0) id_B (request_A\<lparr>room_type := ''Penthouse''\<rparr>) db_A) = Inl UnknownRoomType
   \<and> fst (book (june_2024 0) id_B (request_A\<lparr>check_in := june_2024 3, check_out := june_2024 7\<rparr>) db_A)
       = Inl DateConflict"
proof -
  have u: "find_room ''Penthouse'' = None"
    by code_simp
  show ?thesis
    using book_validation_order [of "june_2024 0" id_B
        "request_A\<lparr>check_in := june_2024 5, check_out := june_2024 1\<rparr>" db_A]
      book_validation_order [of "june_2024 0" id_B "request_A\<lparr>guests := 3\<rparr>" db_A]
      book_validation_order [of "june_2024 0" id_B "request_A\<lparr>room_type := ''Penthouse''\<rparr>" db_A]
      book_validation_order [of "june_2024 0" id_B
        "request_A\<lparr>check_in := june_2024 3, check_out := june_2024 7\<rparr>" db_A]
    by (simp add: request_A_def june_2024_less june_2024_le find_room_Deluxe hd_ROOM_TYPES u
        is_available_fst db_A_booking)
qed

text \<open>
  Claim C4, as the code has it. A request that passes the four validations adds exactly
  one document to the \<open>booking\<close> collection: its status is "Booked", its payment method
  is the request's when that is given and not the empty string and "Pending" otherwise,
  its creation timestamp is the time of the call and its identifier the one the store
  assigned; the response carries that identifier and the status "Booked".
\<close>

theorem book_persists_one_booking:
  assumes "check_in body < check_out body"
    and "find_room (room_type body) = Some room"
    and "guests body \<le> capacity room"
    and "fst (is_available (rtype room) (check_in body) (check_out body) db)"
  shows "\<exists>doc. booking (snd (book now nid body db)) = booking db @ [doc]
      \<and> status doc = ''Booked''
      \<and> payment_method doc =
          Some (case payment_method body of
                  None \<Rightarrow> ''Pending''
                | Some m \<Rightarrow> if m = [] then ''Pending'' else m)
      \<and> created_at doc = now
      \<and> oid doc = nid
      \<and> fst (book now nid body db) = Inr \<lparr>booking_id = nid, resp_status = ''Booked''\<rparr>"
  by (simp add: book_success [OF assms] or_pending_def)

theorem book_persists_one_booking_witness:
  "\<exists>doc. booking (snd (book (june_2024 4) id_B request_card db_A)) = booking db_A @ [doc]
      \<and> status doc = ''Booked''
      \<and> payment_method doc = Some ''Card''
      \<and> created_at doc = june_2024 4
      \<and> oid doc = id_B
      \<and> fst (book (june_2024 4) id_B request_card db_A)
          = Inr \<lparr>booking_id = id_B, resp_status = ''Booked''\<rparr>"
proof -
  have 1: "check_in request_card < check_out request_card"
    by (simp add: request_card_def june_2024_less)
  have 2: "find_room (room_type request_card) = Some (hd ROOM_TYPES)"
    by (simp add: request_card_def request_A_def find_room_Deluxe)
  have 3: "guests request_card \<le> capacity (hd ROOM_TYPES)"
    by (simp add: request_card_def request_A_def hd_ROOM_TYPES)
  have 4: "fst (is_available (rtype (hd ROOM_TYPES)) (check_in request_card)
             (check_out request_card) db_A)"
    by (simp add: request_card_def is_available_fst db_A_booking hd_ROOM_TYPES june_2024_less)
  have 5: "payment_method request_card = Some ''Card''"
    by (simp add: request_card_def)
  show ?thesis
    using book_persists_one_booking [OF 1 2 3 4, of "june_2024 4" id_B]
    by (simp add: 5)
qed

text \<open>
  The claim as it was stated fails where the request gives the empty string as its
  payment method: the request is accepted and the stored payment method is "Pending",
  not the one of the request.
\<close>

theorem book_blank_payment_method_counterexample:
  "fst (book (june_2024 0) id_A request_blank empty_db)
     = Inr \<lparr>booking_id = id_A, resp_status = ''Booked''\<rparr>
   \<and> payment_method request_blank = Some []
   \<and> map payment_method (booking (snd (book (june_2024 0) id_A request_blank empty_db)))
       = [Some ''Pending'']"
  by code_simp

section \<open>Confirming a payment\<close>

lemma set_first_none: "\<forall>x\<in>set xs. \<not> p x \<Longrightarrow> set_first p f xs = (xs, 0)"
  by (induction xs) auto

lemma set_first_split:
  "\<forall>x\<in>set pre. \<not> p x \<Longrightarrow> p d \<Longrightarrow> set_first p f (pre @ d # post) = (pre @ f d # post, 1)"
  by (induction pre) auto

lemma ObjectId_id_A: "ObjectId id_A = Some id_A"
  by code_simp

lemma ObjectId_id_B: "ObjectId id_B = Some id_B"
  by code_simp

lemma ObjectId_malformed: "ObjectId ''not-an-id'' = None"
  by code_simp

text \<open>
  Claim C5. \<open>pay\<close> fails with InvalidIdentifier when the identifier is not well
  formed, and with BookingNotFound, a different error, when it is well formed and no
  booking has it. Otherwise the booking with that identifier gets the given payment
  method and the status "Paid", whatever its status was before.
\<close>

theorem pay_contract:
  "(ObjectId bid = None \<longrightarrow> pay m bid db = (Inl InvalidIdentifier, db))
   \<and> (\<forall>ident. ObjectId bid = Some ident \<and> (\<forall>d\<in>set (booking db). oid d \<noteq> ident) \<longrightarrow>
         fst (pay m bid db) = Inl BookingNotFound \<and> booking (snd (pay m bid db)) = booking db)
   \<and> InvalidIdentifier \<noteq> BookingNotFound
   \<and> (\<forall>ident pre d post.
         ObjectId bid = Some ident \<and> booking db = pre @ d # post \<and> oid d = ident \<and>
         (\<forall>x\<in>set pre. oid x \<noteq> ident) \<longrightarrow>
         fst (pay m bid db) = Inr \<lparr>pay_status = ''Paid'', pay_booking_id = bid, pay_method = m\<rparr> \<and>
         booking (snd (pay m bid db))
           = pre @ d\<lparr>payment_method := Some m, status := ''Paid''\<rparr> # post)"
proof (intro conjI allI impI)
  show "InvalidIdentifier \<noteq> BookingNotFound"
    by (simp add: InvalidIdentifier_def BookingNotFound_def)
next
  assume "ObjectId bid = None"
  then show "pay m bid db = (Inl InvalidIdentifier, db)"
    by (simp add: pay_def)
next
  fix ident
  assume a: "ObjectId bid = Some ident \<and> (\<forall>d\<in>set (booking db). oid d \<noteq> ident)"
  then have "set_first (\<lambda>d. oid d = ident)
      (\<lambda>d. d\<lparr>payment_method := Some m, status := ''Paid''\<rparr>) (booking db) = (booking db, 0)"
    by (intro set_first_none) simp
  with a show "fst (pay m bid db) = Inl BookingNotFound"
    and "booking (snd (pay m bid db)) = booking db"
    by (simp_all add: pay_def update_one_def)
next
  fix ident pre d post
  assume a: "ObjectId bid = Some ident \<and> booking db = pre @ d # post \<and> oid d = ident \<and>
         (\<forall>x\<in>set pre. oid x \<noteq> ident)"
  then have "set_first (\<lambda>d. oid d = ident)
      (\<lambda>d. d\<lparr>payment_method := Some m, status := ''Paid''\<rparr>) (pre @ d # post)
      = (pre @ d\<lparr>payment_method := Some m, status := ''Paid''\<rparr> # post, 1)"
    by (intro set_first_split) simp_all
  with a show "fst (pay m bid db) = Inr \<lparr>pay_status = ''Paid'', pay_booking_id = bid, pay_method = m\<rparr>"
    and "booking (snd (pay m bid db)) = pre @ d\<lparr>payment_method := Some m, status := ''Paid''\<rparr> # post"
    by (simp_all add: pay_def update_one_def)
qed

theorem pay_contract_witness:
  "pay ''Card'' ''not-an-id'' db_A = (Inl InvalidIdentifier, db_A)
   \<and> fst (pay ''Card'' id_B db_A) = Inl BookingNotFound
   \<and> status cancelled_A = ''Cancelled''
   \<and> booking (snd (pay ''Card'' id_A (empty_db\<lparr>booking := [cancelled_A]\<rparr>)))
       = [cancelled_A\<lparr>payment_method := Some ''Card'', status := ''Paid''\<rparr>]"
proof -
  have c: "oid cancelled_A = id_A" "status cancelled_A = ''Cancelled''"
    by (simp_all add: cancelled_A_def)
  have ne: "id_A \<noteq> id_B"
    by (simp add: id_A_def id_B_def)
  show ?thesis
    using pay_contract [of "''not-an-id''" "''Card''" db_A]
      pay_contract [of id_B "''Card''" db_A]
      pay_contract [of id_A "''Card''" "empty_db\<lparr>booking := [cancelled_A]\<rparr>"]
    apply (simp add: ObjectId_malformed ObjectId_id_A ObjectId_id_B db_A_booking c ne)
    apply (elim conjE)
    apply (drule_tac x = "[]" in spec, drule_tac x = cancelled_A in spec, drule_tac x = "[]" in spec)
    apply (simp add: c)
    done
qed

section \<open>The chart of the dashboard\<close>

lemma day_window_eq:
  "day_window day =
     (\<lambda>b. mk_datetime day 0 0 0 \<le> created_at b \<and> created_at b \<le> mk_datetime day 23 59 59)"
  by (rule ext) (simp add: day_window_def Let_def)

lemma chart_loop_run:
  "\<forall>i\<in>set idx. 1 \<le> today - (6 - int i) \<and> today - (6 - int i) \<le> MAXORDINAL \<Longrightarrow>
   chart_loop today idx acc db =
     (Inr (acc @ map (\<lambda>i. \<lparr>date = today - (6 - int i),
                          bookings = length (filter (day_window (today - (6 - int i))) (booking db))\<rparr>) idx),
      db\<lparr>oplog := oplog db @ replicate (length idx) (CountDocuments ''booking'')\<rparr>)"
proof (induction idx arbitrary: acc db)
  case Nil
  then show ?case by simp
next
  case (Cons i rest)
  then show ?case
    by (simp add: fromordinal_def count_documents_def replicate_app_Cons_same)
qed

lemma dashboard_chart_eq:
  assumes "7 \<le> date_of utcnow" and "date_of utcnow \<le> MAXORDINAL"
  shows "\<exists>D. fst (dashboard utcnow db) = Inr D \<and>
     chart D = map (\<lambda>i. \<lparr>date = date_of utcnow - (6 - int i),
                         bookings = length (filter (day_window (date_of utcnow - (6 - int i))) (booking db))\<rparr>)
                [0..<7]"
proof -
  have "\<forall>i\<in>set [0..<7]. 1 \<le> date_of utcnow - (6 - int i) \<and> date_of utcnow - (6 - int i) \<le> MAXORDINAL"
    using assms by auto
  from chart_loop_run [OF this] show ?thesis
    by (simp add: dashboard_def count_documents_def find_notifications_def split: prod.splits)
qed

text \<open>
  Claim C6. On a day that has six days before it in the calendar, the chart of the
  dashboard has exactly seven entries, oldest first: each date is the day after the one
  before, the last date is today (the UTC date of the call), and each count is the
  number of bookings created between 00:00:00 and 23:59:59 of the entry's date.
\<close>

theorem dashboard_chart:
  assumes "7 \<le> date_of utcnow" and "date_of utcnow \<le> MAXORDINAL"
  shows "\<exists>D. fst (dashboard utcnow db) = Inr D
    \<and> length (chart D) = 7
    \<and> (\<forall>i<6. date (chart D ! Suc i) = date (chart D ! i) + 1)
    \<and> date (last (chart D)) = date_of utcnow
    \<and> (\<forall>i<7. date (chart D ! i) = date_of utcnow - 6 + int i)
    \<and> (\<forall>i<7. bookings (chart D ! i) =
          length (filter (\<lambda>b. mk_datetime (date (chart D ! i)) 0 0 0 \<le> created_at b \<and>
                               created_at b \<le> mk_datetime (date (chart D ! i)) 23 59 59)
                    (booking db)))"
proof -
  from dashboard_chart_eq [OF assms] obtain D where
    D: "fst (dashboard utcnow db) = Inr D"
    and c: "chart D = map (\<lambda>i. \<lparr>date = date_of utcnow - (6 - int i),
                         bookings = length (filter (day_window (date_of utcnow - (6 - int i))) (booking db))\<rparr>)
                [0..<7]"
    by blast
  have len: "length (chart D) = 7"
    by (simp add: c)
  have nth: "chart D ! i = \<lparr>date = date_of utcnow - (6 - int i),
       bookings = length (filter (day_window (date_of utcnow - (6 - int i))) (booking db))\<rparr>"
    if "i < 7" for i
    using that by (simp only: c nth_map_upt) simp
  have "chart D \<noteq> []"
    using len by auto
  then have l: "last (chart D) = chart D ! 6"
    by (simp add: last_conv_nth len)
  have "\<forall>i<6. date (chart D ! Suc i) = date (chart D ! i) + 1"
    by (simp add: nth)
  moreover have "date (last (chart D)) = date_of utcnow"
    by (simp add: l nth)
  moreover have "\<forall>i<7. date (chart D ! i) = date_of utcnow - 6 + int i"
    by (simp add: nth)
  moreover have "\<forall>i<7. bookings (chart D ! i) =
          length (filter (\<lambda>b. mk_datetime (date (chart D ! i)) 0 0 0 \<le> created_at b \<and>
                               created_at b \<le> mk_datetime (date (chart D ! i)) 23 59 59)
                    (booking db))"
    by (simp add: nth day_window_eq)
  ultimately show ?thesis
    using D len by blast
qed

lemma date_of_june: "date_of (june_2024 d) = 739037 + d"
  by (simp add: june_2024_def mk_datetime_def date_of_def)

theorem dashboard_chart_witness:
  "7 \<le> date_of (june_2024 5) \<and> date_of (june_2024 5) \<le> MAXORDINAL
   \<and> (\<exists>D. fst (dashboard (june_2024 5) db_A) = Inr D
        \<and> length (chart D) = 7
        \<and> date (chart D ! 0) = date_of (june_2024 (-1))
        \<and> date (last (chart D)) = date_of (june_2024 5)
        \<and> bookings (chart D ! 1) = 1 \<and> bookings (chart D ! 2) = 0)"
proof -
  have h1: "7 \<le> date_of (june_2024 5)" and h2: "date_of (june_2024 5) \<le> MAXORDINAL"
    by (simp_all add: date_of_june MAXORDINAL_def)
  from dashboard_chart [OF h1 h2, of db_A] obtain D where
    D: "fst (dashboard (june_2024 5) db_A) = Inr D" "length (chart D) = 7"
      "date (last (chart D)) = date_of (june_2024 5)"
      "\<forall>i<7. date (chart D ! i) = date_of (june_2024 5) - 6 + int i"
      "\<forall>i<7. bookings (chart D ! i) =
          length (filter (\<lambda>b. mk_datetime (date (chart D ! i)) 0 0 0 \<le> created_at b \<and>
                               created_at b \<le> mk_datetime (date (chart D ! i)) 23 59 59)
                    (booking db_A))"
    by blast
  have d0: "date (chart D ! 0) = 739036" and d1: "date (chart D ! 1) = 739037"
    and d2: "date (chart D ! 2) = 739038"
    using D(4) by (simp_all add: date_of_june)
  have "bookings (chart D ! 1) = 1"
    using D(5) [rule_format, of 1] d1 by (simp add: db_A_booking june_2024_def mk_datetime_def)
  moreover have "bookings (chart D ! 2) = 0"
    using D(5) [rule_format, of 2] d2 by (simp add: db_A_booking june_2024_def mk_datetime_def)
  ultimately show ?thesis
    using h1 h2 D(1,2,3) d0 by (auto simp: date_of_june)
qed

section \<open>Guests, atomicity, capacity and room-type casing\<close>

text \<open>
  Claim C7 says that a request with no guests is rejected. The request model of
  \<open>book\<close> puts no lower bound on \<open>guests\<close>, unlike the schema of the booking
  collection and the availability request, and \<open>book\<close> compares the guests with the
  capacity only: the request of guest A with \<open>guests = 0\<close> is accepted and stored.
\<close>

theorem book_accepts_zero_guests:
  "fst (book (june_2024 0) id_A request_no_guests empty_db)
     = Inr \<lparr>booking_id = id_A, resp_status = ''Booked''\<rparr>
   \<and> map guests (booking (snd (book (june_2024 0) id_A request_no_guests empty_db))) = [0]"
  by code_simp

lemma set_first_cases:
  "(set_first p f xs = (xs, 0) \<and> (\<forall>x\<in>set xs. \<not> p x)) \<or>
   (\<exists>pre d post. xs = pre @ d # post \<and> (\<forall>x\<in>set pre. \<not> p x) \<and> p d \<and>
      set_first p f xs = (pre @ f d # post, 1))"
proof (induction xs)
  case Nil
  then show ?case by simp
next
  case (Cons x xs)
  show ?case
  proof (cases "p x")
    case True
    then have "x # xs = [] @ x # xs \<and> (\<forall>y\<in>set []. \<not> p y) \<and> p x \<and>
        set_first p f (x # xs) = ([] @ f x # xs, 1)"
      by simp
    then show ?thesis by blast
  next
    case False
    from Cons.IH show ?thesis
    proof
      assume "set_first p f xs = (xs, 0) \<and> (\<forall>x\<in>set xs. \<not> p x)"
      with False show ?thesis by simp
    next
      assume "\<exists>pre d post. xs = pre @ d # post \<and> (\<forall>x\<in>set pre. \<not> p x) \<and> p d \<and>
        set_first p f xs = (pre @ f d # post, 1)"
      then obtain pre d post where h: "xs = pre @ d # post" "\<forall>x\<in>set pre. \<not> p x" "p d"
        "set_first p f xs = (pre @ f d # post, 1)"
        by blast
      with False have "x # xs = (x # pre) @ d # post \<and> (\<forall>y\<in>set (x # pre). \<not> p y) \<and> p d \<and>
        set_first p f (x # xs) = ((x # pre) @ f d # post, 1)"
        by simp
      then show ?thesis by blast
    qed
  qed
qed

lemma book_snd_failure:
  "fst (book now nid body db) = Inl e \<Longrightarrow>
     snd (book now nid body db) = db \<or>
     snd (book now nid body db) = db\<lparr>oplog := oplog db @ [CountDocuments ''booking'']\<rparr>"
  by (auto simp: book_def create_document_def is_available_def count_documents_def
      split: if_splits option.splits prod.splits)

lemma book_snd_success:
  "fst (book now nid body db) = Inr r \<Longrightarrow>
     \<exists>doc. snd (book now nid body db) =
       db\<lparr>booking := booking db @ [doc],
          oplog := oplog db @ [CountDocuments ''booking'', InsertOne ''booking'']\<rparr>"
  by (auto simp: book_def create_document_def is_available_def count_documents_def
      split: if_splits option.splits prod.splits)

lemma pay_snd_failure:
  "fst (pay m bid db) = Inl e \<Longrightarrow>
     booking (snd (pay m bid db)) = booking db \<and>
     notification (snd (pay m bid db)) = notification db"
  using set_first_cases [of "\<lambda>d. oid d = the (ObjectId bid)"
      "\<lambda>d. d\<lparr>payment_method := Some m, status := ''Paid''\<rparr>" "booking db"]
  by (auto simp: pay_def update_one_def split: option.splits prod.splits if_splits)

lemma pay_snd_success:
  "fst (pay m bid db) = Inr r \<Longrightarrow>
     (\<exists>pre d post. booking db = pre @ d # post \<and>
        booking (snd (pay m bid db)) = pre @ d\<lparr>payment_method := Some m, status := ''Paid''\<rparr> # post)
     \<and> notification (snd (pay m bid db)) = notification db
     \<and> oplog (snd (pay m bid db)) = oplog db @ [UpdateOne ''booking'']"
  using set_first_cases [of "\<lambda>d. oid d = the (ObjectId bid)"
      "\<lambda>d. d\<lparr>payment_method := Some m, status := ''Paid''\<rparr>" "booking db"]
  by (auto simp: pay_def update_one_def split: option.splits prod.splits if_splits) blast

text \<open>
  Claim C8. \<open>book\<close> either succeeds, with exactly one document added by one insert,
  or fails and leaves the collections as they were, with no insert issued; \<open>pay\<close>
  either succeeds, with exactly one document changed by one update, or fails and leaves
  the collections as they were.
\<close>

theorem book_pay_atomic:
  "(\<forall>e. fst (book now nid body db) = Inl e \<longrightarrow>
      booking (snd (book now nid body db)) = booking db \<and>
      notification (snd (book now nid body db)) = notification db \<and>
      InsertOne ''booking'' \<notin> set (drop (length (oplog db)) (oplog (snd (book now nid body db)))))
   \<and> (\<forall>r. fst (book now nid body db) = Inr r \<longrightarrow>
      (\<exists>doc. booking (snd (book now nid body db)) = booking db @ [doc]) \<and>
      notification (snd (book now nid body db)) = notification db \<and>
      oplog (snd (book now nid body db))
        = oplog db @ [CountDocuments ''booking'', InsertOne ''booking''])
   \<and> (\<forall>e. fst (pay m bid db) = Inl e \<longrightarrow>
      booking (snd (pay m bid db)) = booking db \<and>
      notification (snd (pay m bid db)) = notification db)
   \<and> (\<forall>r. fst (pay m bid db) = Inr r \<longrightarrow>
      (\<exists>pre d post. booking db = pre @ d # post \<and>
         booking (snd (pay m bid db))
           = pre @ d\<lparr>payment_method := Some m, status := ''Paid''\<rparr> # post) \<and>
      notification (snd (pay m bid db)) = notification db \<and>
      oplog (snd (pay m bid db)) = oplog db @ [UpdateOne ''booking''])"
proof (intro conjI allI impI)
  fix e assume f: "fst (book now nid body db) = Inl e"
  from book_snd_failure [OF f]
  show "booking (snd (book now nid body db)) = booking db"
    and "notification (snd (book now nid body db)) = notification db"
    and "InsertOne ''booking'' \<notin> set (drop (length (oplog db)) (oplog (snd (book now nid body db))))"
    by auto
next
  fix r assume s: "fst (book now nid body db) = Inr r"
  from book_snd_success [OF s]
  show "\<exists>doc. booking (snd (book now nid body db)) = booking db @ [doc]"
    and "notification (snd (book now nid body db)) = notification db"
    and "oplog (snd (book now nid body db))
        = oplog db @ [CountDocuments ''booking'', InsertOne ''booking'']"
    by auto
next
  fix e assume f: "fst (pay m bid db) = Inl e"
  from pay_snd_failure [OF f]
  show "booking (snd (pay m bid db)) = booking db"
    and "notification (snd (pay m bid db)) = notification db"
    by auto
next
  fix r assume s: "fst (pay m bid db) = Inr r"
  from pay_snd_success [OF s]
  show "\<exists>pre d post. booking db = pre @ d # post \<and>
         booking (snd (pay m bid db))
           = pre @ d\<lparr>payment_method := Some m, status := ''Paid''\<rparr> # post"
    and "notification (snd (pay m bid db)) = notification db"
    and "oplog (snd (pay m bid db)) = oplog db @ [UpdateOne ''booking'']"
    by auto
qed

theorem book_pay_atomic_witness:
  "fst (book (june_2024 0) id_B request_lower db_A) = Inl DateConflict
   \<and> booking (snd (book (june_2024 0) id_B request_lower db_A)) = booking db_A
   \<and> (\<exists>doc. booking (snd (book (june_2024 4) id_B request_card db_A)) = booking db_A @ [doc])
   \<and> fst (pay ''Card'' id_B db_A) = Inl BookingNotFound
   \<and> booking (snd (pay ''Card'' id_B db_A)) = booking db_A
   \<and> oplog (snd (pay ''Card'' id_A db_A)) = oplog db_A @ [UpdateOne ''booking'']"
proof -
  have a: "fst (book (june_2024 0) id_B request_lower db_A) = Inl DateConflict"
    by code_simp
  have b: "fst (book (june_2024 4) id_B request_card db_A)
      = Inr \<lparr>booking_id = id_B, resp_status = ''Booked''\<rparr>"
    by code_simp
  have c: "fst (pay ''Card'' id_B db_A) = Inl BookingNotFound"
    by code_simp
  have d: "fst (pay ''Card'' id_A db_A)
      = Inr \<lparr>pay_status = ''Paid'', pay_booking_id = id_A, pay_method = ''Card''\<rparr>"
    by code_simp
  show ?thesis
    using book_pay_atomic [of "june_2024 0" id_B request_lower db_A "''Card''" id_B]
      book_pay_atomic [of "june_2024 4" id_B request_card db_A "''Card''" id_A]
    by (simp add: a b c d)
qed

text \<open>
  Claim C9. At the availability endpoint, for dates that parse and are in order and a
  known room type, more guests than the room holds is an ordinary answer, not an
  error: the result is \<open>available = False\<close> with the reason "Exceeds capacity", and the
  store is handed back untouched, no query issued. \<open>book\<close> on the same room type,
  dates and guests fails with CapacityExceeded.
\<close>

theorem availability_capacity_not_an_error:
  assumes "fromisoformat ci_text = Some ci" and "fromisoformat co_text = Some co"
    and "ci < co" and "find_room rt = Some room" and "g > capacity room"
  shows "availability fromisoformat rt ci_text co_text g db
           = (Inr \<lparr>available = False, reason = Some ''Exceeds capacity''\<rparr>, db)
         \<and> (room_type body = rt \<and> check_in body = ci \<and> check_out body = co \<and> guests body = g
              \<longrightarrow> book now nid body db = (Inl CapacityExceeded, db))"
  using assms by (simp add: availability_def book_def)

theorem availability_capacity_not_an_error_witness:
  "availability iso_sample ''Deluxe'' ''2024-06-01'' ''2024-06-05'' 3 db_A
     = (Inr \<lparr>available = False, reason = Some ''Exceeds capacity''\<rparr>, db_A)
   \<and> book (june_2024 0) id_B (request_A\<lparr>guests := 3\<rparr>) db_A = (Inl CapacityExceeded, db_A)"
proof -
  have 1: "iso_sample ''2024-06-01'' = Some (june_2024 1)"
    and 2: "iso_sample ''2024-06-05'' = Some (june_2024 5)"
    by (simp_all add: iso_sample_def)
  have 3: "june_2024 1 < june_2024 5"
    by (simp add: june_2024_less)
  have 4: "(3::int) > capacity (hd ROOM_TYPES)"
    by (simp add: hd_ROOM_TYPES)
  show ?thesis
    using availability_capacity_not_an_error [where fromisoformat = iso_sample
        and ci_text = "''2024-06-01''" and co_text = "''2024-06-05''" and ci = "june_2024 1"
        and co = "june_2024 5" and rt = "''Deluxe''" and room = "hd ROOM_TYPES" and g = 3
        and body = "request_A\<lparr>guests := 3\<rparr>" and db = db_A and now = "june_2024 0"
        and nid = id_B]
    by (simp add: 1 2 3 4 find_room_Deluxe request_A_def)
qed

lemma find_room_lower: "lower a = lower b \<Longrightarrow> find_room a = find_room b"
  by (simp add: find_room_def)

lemma find_room_Some:
  "find_room name = Some room \<Longrightarrow> room \<in> set ROOM_TYPES \<and> lower (rtype room) = lower name"
  by (auto simp: find_room_def find_Some_iff)

text \<open>
  Claim C10. A booking that \<open>book\<close> accepts is stored under the catalogue's spelling
  of the room type, whatever the casing of the request, and the conflict query is made
  for that spelling: a request fails with DateConflict exactly when a stored booking
  of the catalogue's spelling overlaps it. So after an accepted booking, a second
  request that spells the same room type in another casing and overlaps the first
  fails with DateConflict.
\<close>

theorem book_canonical_room_type:
  "(\<forall>r. fst (book now nid body db) = Inr r \<longrightarrow>
      (\<exists>room doc. room \<in> set ROOM_TYPES \<and> lower (rtype room) = lower (room_type body) \<and>
         booking (snd (book now nid body db)) = booking db @ [doc] \<and>
         room_type doc = rtype room))
   \<and> (\<forall>room. check_in body < check_out body \<and> find_room (room_type body) = Some room \<and>
         guests body \<le> capacity room \<longrightarrow>
         (fst (book now nid body db) = Inl DateConflict \<longleftrightarrow>
            (\<exists>b\<in>set (booking db). room_type b = rtype room \<and>
               check_in b < check_out body \<and> check_out b > check_in body)))
   \<and> (\<forall>r room. fst (book now nid body db) = Inr r \<and>
         lower (room_type body') = lower (room_type body) \<and>
         find_room (room_type body) = Some room \<and>
         check_in body' < check_out body' \<and> guests body' \<le> capacity room \<and>
         check_in body < check_out body' \<and> check_out body > check_in body' \<longrightarrow>
         fst (book now' nid' body' (snd (book now nid body db))) = Inl DateConflict)"
proof (intro conjI allI impI)
  fix r assume s: "fst (book now nid body db) = Inr r"
  then obtain room where room: "find_room (room_type body) = Some room"
    and ok: "check_in body < check_out body" "guests body \<le> capacity room"
      "fst (is_available (rtype room) (check_in body) (check_out body) db)"
    by (auto simp: book_fst split: if_splits option.splits)
  from find_room_Some [OF room] book_success [OF ok(1) room ok(2,3), of now nid]
  show "\<exists>room doc. room \<in> set ROOM_TYPES \<and> lower (rtype room) = lower (room_type body) \<and>
         booking (snd (book now nid body db)) = booking db @ [doc] \<and>
         room_type doc = rtype room"
    by auto
next
  fix room
  assume "check_in body < check_out body \<and> find_room (room_type body) = Some room \<and>
         guests body \<le> capacity room"
  then show "fst (book now nid body db) = Inl DateConflict \<longleftrightarrow>
            (\<exists>b\<in>set (booking db). room_type b = rtype room \<and>
               check_in b < check_out body \<and> check_out b > check_in body)"
    by (auto simp: book_fst is_available_fst DateConflict_def)
next
  fix r room
  assume a: "fst (book now nid body db) = Inr r \<and>
         lower (room_type body') = lower (room_type body) \<and>
         find_room (room_type body) = Some room \<and>
         check_in body' < check_out body' \<and> guests body' \<le> capacity room \<and>
         check_in body < check_out body' \<and> check_out body > check_in body'"
  then have ok: "check_in body < check_out body" "guests body \<le> capacity room"
      "fst (is_available (rtype room) (check_in body) (check_out body) db)"
    by (auto simp: book_fst split: if_splits option.splits)
  from a have room: "find_room (room_type body) = Some room" and
    room': "find_room (room_type body') = Some room"
    using find_room_lower [of "room_type body'" "room_type body"] by simp_all
  from a show "fst (book now' nid' body' (snd (book now nid body db))) = Inl DateConflict"
    by (simp add: book_success [OF ok(1) room ok(2,3)] book_fst room' is_available_fst)
qed

theorem book_canonical_room_type_witness:
  "map room_type (booking db_A) = [''Deluxe'']
   \<and> room_type request_lower = ''deluxe''
   \<and> fst (book (june_2024 0) id_B request_lower db_A) = Inl DateConflict"
proof -
  have a: "fst (book (june_2024 0) id_A request_A empty_db)
      = Inr \<lparr>booking_id = id_A, resp_status = ''Booked''\<rparr>"
    by code_simp
  have l: "lower ''deluxe'' = lower ''Deluxe''"
    by code_simp
  have p: "fst (book (june_2024 0) id_A request_A empty_db)
        = Inr \<lparr>booking_id = id_A, resp_status = ''Booked''\<rparr> \<and>
      lower (room_type request_lower) = lower (room_type request_A) \<and>
      find_room (room_type request_A) = Some (hd ROOM_TYPES) \<and>
      check_in request_lower < check_out request_lower \<and>
      guests request_lower \<le> capacity (hd ROOM_TYPES) \<and>
      check_in request_A < check_out request_lower \<and>
      check_out request_A > check_in request_lower"
    using a
    by (simp add: request_A_def request_lower_def l find_room_Deluxe hd_ROOM_TYPES
        june_2024_less)
  have t: "fst (book (june_2024 0) id_B request_lower db_A) = Inl DateConflict"
    unfolding db_A_def
    by (rule book_canonical_room_type [THEN conjunct2, THEN conjunct2, rule_format, OF p])
  have m: "map room_type (booking db_A) = [''Deluxe'']"
    by (simp add: db_A_booking)
  have n: "room_type request_lower = ''deluxe''"
    by (simp add: request_lower_def)
  from m n t show ?thesis
    by (intro conjI)
qed

end
